theory Spec2Isabelle
  imports Main
begin

section \<open>The documentation configuration \<open>docs/conf.py\<close>\<close>

text \<open>
  The configuration module defines one function, \<open>copy_julia_html_page\<close>, calls it once
  at import time and then assigns the configuration values. The function touches the
  file system through \<open>pathlib.Path\<close> and \<open>shutil.copy\<close>; both are modelled here as far
  as the function uses them, over an explicit file-system state.
\<close>

subsection \<open>Paths\<close>

text \<open>
  A relative POSIX path is the list of its components. \<open>Path s\<close> parses a string the way
  \<open>pathlib\<close> does for relative paths: it splits at \<open>/\<close> and drops empty components and
  \<open>.\<close>. The operator \<open>/\<close> of two relative paths appends the components, and \<open>str\<close> joins
  them with \<open>/\<close> (the empty path prints as \<open>.\<close>).
\<close>

type_synonym path = "string list"

fun split_slash :: "string \<Rightarrow> string \<Rightarrow> string list" where
  "split_slash acc [] = [rev acc]"
| "split_slash acc (c # cs) =
     (if c = CHR ''/'' then rev acc # split_slash [] cs else split_slash (c # acc) cs)"

definition Path :: "string \<Rightarrow> path" where
  "Path s = filter (\<lambda>c. c \<noteq> [] \<and> c \<noteq> ''.'') (split_slash [] s)"

definition joinpath :: "path \<Rightarrow> path \<Rightarrow> path" where
  "joinpath p q = p @ q"

fun str_path :: "path \<Rightarrow> string" where
  "str_path [] = ''.''"
| "str_path [c] = c"
| "str_path (c # d # ds) = c @ ''/'' @ str_path (d # ds)"

subsection \<open>File-system state\<close>

text \<open>
  The state has two parts. The directory entries map the paths relative to the working
  directory to what they name: a directory (with its mode), or a regular file, given by
  its inode number. The inode table gives each regular file its bytes, its mode, and
  whether the process owns it. Two names with one inode number are hard links of one
  file: what is written through one name is read through the other, and
  \<open>os.path.samefile\<close> finds them equal. The mode is the permission triple that applies to
  the process, which is not the superuser: read, write, and execute (search, for a
  directory).

  Outside the model: symbolic links and special files; directories owned by another
  user; a device that fails or fills up. The working directory itself is not an entry:
  it is taken to be a directory that the process may search and write.
\<close>

type_synonym bytes = "char list"

type_synonym inode = nat

datatype mode = Mode (readable: bool) (writable: bool) (executable: bool)

datatype entry = Reg inode | Dir mode

datatype regular = File (contents: bytes) (file_mode: mode) (owned: bool)

record filesystem =
  names :: "(path \<times> entry) list"
  files :: "inode \<Rightarrow> regular"

datatype error =
    FileNotFoundError
  | NotADirectoryError
  | IsADirectoryError
  | PermissionError
  | SameFileError

text \<open>What \<open>os.stat\<close> finds at a path: a regular file with its identity, or a directory.\<close>

datatype stat_result = IsFile inode regular | IsDir mode

definition entry_at :: "filesystem \<Rightarrow> path \<Rightarrow> entry option" where
  "entry_at fs p = map_of (names fs) p"

text \<open>
  A new file gets an inode number that no entry uses: one more than the largest in use.
\<close>

fun fresh_inode :: "(path \<times> entry) list \<Rightarrow> inode" where
  "fresh_inode [] = 0"
| "fresh_inode ((p, Reg i) # es) = max (Suc i) (fresh_inode es)"
| "fresh_inode ((p, Dir m) # es) = fresh_inode es"

text \<open>
  Name resolution (\<open>stat\<close>): every directory on the way must exist, be a directory and be
  searchable; the last component must exist.
\<close>

definition stat_entry :: "filesystem \<Rightarrow> path \<Rightarrow> error + stat_result" where
  "stat_entry fs p =
     (case entry_at fs p of
        None \<Rightarrow> Inl FileNotFoundError
      | Some (Reg i) \<Rightarrow> Inr (IsFile i (files fs i))
      | Some (Dir m) \<Rightarrow> Inr (IsDir m))"

fun walk :: "filesystem \<Rightarrow> path \<Rightarrow> string \<Rightarrow> path \<Rightarrow> error + stat_result" where
  "walk fs dir c [] = stat_entry fs (dir @ [c])"
| "walk fs dir c (d # ds) =
     (case entry_at fs (dir @ [c]) of
        None \<Rightarrow> Inl FileNotFoundError
      | Some (Reg i) \<Rightarrow> Inl NotADirectoryError
      | Some (Dir m) \<Rightarrow>
          if executable m then walk fs (dir @ [c]) d ds else Inl PermissionError)"

fun os_stat :: "filesystem \<Rightarrow> path \<Rightarrow> error + stat_result" where
  "os_stat fs [] = Inr (IsDir (Mode True True True))"
| "os_stat fs (c # cs) = walk fs [] c cs"

text \<open>
  \<open>Path.exists()\<close> and \<open>os.path.isdir\<close>: whether \<open>stat\<close> succeeds, and whether it finds a
  directory. (For a single component under a searchable working directory \<open>stat\<close> can
  only succeed or report a missing name, so no Python version raises here.)
  \<open>os.path.samefile\<close> compares the identities that \<open>stat\<close> finds, and \<open>shutil._samefile\<close>
  answers no when \<open>stat\<close> fails for either path. A directory has no second name, so its
  identity is its path.
\<close>

definition path_exists :: "filesystem \<Rightarrow> path \<Rightarrow> bool" where
  "path_exists fs p = (case os_stat fs p of Inl e \<Rightarrow> False | Inr n \<Rightarrow> True)"

definition isdir :: "filesystem \<Rightarrow> path \<Rightarrow> bool" where
  "isdir fs p =
     (case os_stat fs p of Inl e \<Rightarrow> False | Inr (IsFile i f) \<Rightarrow> False | Inr (IsDir m) \<Rightarrow> True)"

definition samefile :: "filesystem \<Rightarrow> path \<Rightarrow> path \<Rightarrow> bool" where
  "samefile fs p q =
     (case os_stat fs p of
        Inl e \<Rightarrow> False
      | Inr (IsFile i f) \<Rightarrow>
          (case os_stat fs q of
             Inl e \<Rightarrow> False
           | Inr (IsFile j g) \<Rightarrow> i = j
           | Inr (IsDir m) \<Rightarrow> False)
      | Inr (IsDir m) \<Rightarrow>
          (case os_stat fs q of
             Inl e \<Rightarrow> False
           | Inr (IsFile j g) \<Rightarrow> False
           | Inr (IsDir m') \<Rightarrow> p = q))"

subsection \<open>Opening, writing, changing the mode\<close>

text \<open>\<open>open(p, 'rb')\<close> followed by \<open>read()\<close>: the bytes of a readable regular file.\<close>

definition open_rb :: "filesystem \<Rightarrow> path \<Rightarrow> error + bytes" where
  "open_rb fs p =
     (case os_stat fs p of
        Inl e \<Rightarrow> Inl e
      | Inr (IsDir m) \<Rightarrow> Inl IsADirectoryError
      | Inr (IsFile i f) \<Rightarrow>
          if readable (file_mode f) then Inr (contents f) else Inl PermissionError)"

text \<open>
  A file created by \<open>open\<close> gets the mode \<open>0o666 & ~umask\<close> and belongs to the process;
  the umask belongs to the process, not to the file system, and is a parameter of the
  model (its owner triple).
\<close>

definition create_mode :: "mode \<Rightarrow> mode" where
  "create_mode umask = Mode (\<not> readable umask) (\<not> writable umask) False"

text \<open>
  \<open>open(p, 'wb')\<close>: the directory of \<open>p\<close> must resolve to a searchable directory. An
  existing regular file must be writable and is truncated, whoever owns it; a missing
  file is created empty under a new inode number, which needs write permission on the
  directory; a directory cannot be opened for writing.
\<close>

definition open_wb :: "mode \<Rightarrow> filesystem \<Rightarrow> path \<Rightarrow> error + filesystem" where
  "open_wb umask fs p =
     (case os_stat fs (butlast p) of
        Inl e \<Rightarrow> Inl e
      | Inr (IsFile i f) \<Rightarrow> Inl NotADirectoryError
      | Inr (IsDir dm) \<Rightarrow>
          if p = [] then Inl IsADirectoryError
          else if \<not> executable dm then Inl PermissionError
          else (case entry_at fs p of
                  Some (Dir m) \<Rightarrow> Inl IsADirectoryError
                | Some (Reg i) \<Rightarrow>
                    if writable (file_mode (files fs i))
                    then Inr (fs\<lparr>files := (files fs)
                           (i := File [] (file_mode (files fs i)) (owned (files fs i)))\<rparr>)
                    else Inl PermissionError
                | None \<Rightarrow>
                    if writable dm
                    then Inr (fs\<lparr>names := (p, Reg (fresh_inode (names fs))) # names fs,
                                files := (files fs)
                           (fresh_inode (names fs) := File [] (create_mode umask) True)\<rparr>)
                    else Inl PermissionError))"

text \<open>Writing to the file opened at \<open>p\<close> appends the data to its bytes.\<close>

definition write_bytes :: "filesystem \<Rightarrow> path \<Rightarrow> bytes \<Rightarrow> filesystem" where
  "write_bytes fs p d =
     (case entry_at fs p of
        Some (Reg i) \<Rightarrow>
          fs\<lparr>files := (files fs)
            (i := File (contents (files fs i) @ d) (file_mode (files fs i)) (owned (files fs i)))\<rparr>
      | Some (Dir m) \<Rightarrow> fs
      | None \<Rightarrow> fs)"

text \<open>
  \<open>os.chmod\<close>: only the owner of a file may change its mode; anybody else gets
  \<open>PermissionError\<close>.
\<close>

definition chmod :: "filesystem \<Rightarrow> path \<Rightarrow> mode \<Rightarrow> filesystem \<times> (error + unit)" where
  "chmod fs p m =
     (case os_stat fs p of
        Inl e \<Rightarrow> (fs, Inl e)
      | Inr (IsFile i f) \<Rightarrow>
          if owned f then (fs\<lparr>files := (files fs)(i := File (contents f) m True)\<rparr>, Inr ())
          else (fs, Inl PermissionError)
      | Inr (IsDir m') \<Rightarrow> (if p = [] then fs else fs\<lparr>names := (p, Dir m) # names fs\<rparr>, Inr ()))"

subsection \<open>\<open>shutil.copy\<close>\<close>

text \<open>
  \<open>shutil.copyfile(src, dst)\<close> refuses to copy a file onto itself, opens the source for
  reading and then the destination for writing, and writes the source's bytes.
  \<open>shutil.copymode\<close> gives the destination the permission bits of the source.
  \<open>shutil.copy(src, dst)\<close> copies into \<open>dst\<close> under the base name of \<open>src\<close> when \<open>dst\<close> is
  a directory, and runs \<open>copyfile\<close> and then \<open>copymode\<close>. A raised error is \<open>Inl\<close> in the
  second component; the first component is the file system as the call left it.
  The library code that is modelled (CPython, \<open>Lib/shutil.py\<close>, without the branches for
  symbolic links and special files):
  \<^verbatim>\<open>
  def _samefile(src, dst):
      try:
          return os.path.samefile(src, dst)
      except OSError:
          return False

  def copyfile(src, dst):
      if _samefile(src, dst):
          raise SameFileError(...)
      with open(src, 'rb') as fsrc:
          with open(dst, 'wb') as fdst:
              copyfileobj(fsrc, fdst)
      return dst

  def copymode(src, dst):
      st = os.stat(src)
      os.chmod(dst, stat.S_IMODE(st.st_mode))

  def copy(src, dst):
      if os.path.isdir(dst):
          dst = os.path.join(dst, os.path.basename(src))
      copyfile(src, dst)
      copymode(src, dst)
      return dst
  \<close>
\<close>

definition copyfile :: "mode \<Rightarrow> filesystem \<Rightarrow> path \<Rightarrow> path \<Rightarrow> filesystem \<times> (error + path)" where
  "copyfile umask fs src dst =
     (if samefile fs src dst then (fs, Inl SameFileError)
      else case open_rb fs src of
        Inl e \<Rightarrow> (fs, Inl e)
      | Inr d \<Rightarrow>
          (case open_wb umask fs dst of
             Inl e \<Rightarrow> (fs, Inl e)
           | Inr fs' \<Rightarrow> (write_bytes fs' dst d, Inr dst)))"

fun mode_of :: "stat_result \<Rightarrow> mode" where
  "mode_of (IsFile i f) = file_mode f"
| "mode_of (IsDir m) = m"

definition copymode :: "filesystem \<Rightarrow> path \<Rightarrow> path \<Rightarrow> filesystem \<times> (error + unit)" where
  "copymode fs src dst =
     (case os_stat fs src of
        Inl e \<Rightarrow> (fs, Inl e)
      | Inr n \<Rightarrow> chmod fs dst (mode_of n))"

definition basename_join :: "path \<Rightarrow> path \<Rightarrow> path" where
  "basename_join dst src = (case rev src of [] \<Rightarrow> dst | c # cs \<Rightarrow> dst @ [c])"

definition shutil_copy :: "mode \<Rightarrow> filesystem \<Rightarrow> path \<Rightarrow> path \<Rightarrow> filesystem \<times> (error + path)" where
  "shutil_copy umask fs src dst =
     (let dst' = (if isdir fs dst then basename_join dst src else dst) in
      case copyfile umask fs src dst' of
        (fs1, Inl e) \<Rightarrow> (fs1, Inl e)
      | (fs1, Inr r) \<Rightarrow>
          (case copymode fs1 src dst' of
             (fs2, Inl e) \<Rightarrow> (fs2, Inl e)
           | (fs2, Inr u) \<Rightarrow> (fs2, Inr dst')))"

text \<open>
  The file that \<open>shutil.copy\<close> writes when the function calls it: the path
  \<open>_static/K-matrix.html\<close>, or the page's name inside it when that path is a directory.
\<close>

definition destination :: "filesystem \<Rightarrow> path" where
  "destination fs =
     (if isdir fs [''_static'', ''K-matrix.html'']
      then [''_static'', ''K-matrix.html'', ''K-matrix.html'']
      else [''_static'', ''K-matrix.html''])"

subsection \<open>The module\<close>

text \<open>
  \<^verbatim>\<open>
  def copy_julia_html_page() -> list[str]:
      html_page = Path("K-matrix.html")
      if html_page.exists():
          static_path = Path("_static")
          shutil.copy(html_page, static_path / html_page)
          return [str(static_path / html_page)]
      return []
  \<close>
\<close>

definition copy_julia_html_page :: "mode \<Rightarrow> filesystem \<Rightarrow> filesystem \<times> (error + string list)" where
  "copy_julia_html_page umask fs =
     (let html_page = Path ''K-matrix.html'' in
      if path_exists fs html_page then
        (let static_path = Path ''_static'' in
         case shutil_copy umask fs html_page (joinpath static_path html_page) of
           (fs', Inl e) \<Rightarrow> (fs', Inl e)
         | (fs', Inr r) \<Rightarrow> (fs', Inr [str_path (joinpath static_path html_page)]))
      else (fs, Inr []))"

text \<open>
  The module body: the three repository constants, the call of \<open>copy_julia_html_page()\<close>
  as an expression statement (its value is dropped), and the configuration values. Of
  the values, the record keeps those that name files and directories.
\<close>

record config =
  BRANCH :: string
  ORGANIZATION :: string
  REPO_NAME :: string
  exclude_patterns :: "string list"
  html_favicon :: string
  html_static_path :: "string list"

definition conf_values :: config where
  "conf_values =
     \<lparr> BRANCH = ''main'',
       ORGANIZATION = ''mmikhasenko'',
       REPO_NAME = ''international-k-matrix-day'',
       exclude_patterns = [''**.ipynb_checkpoints'', ''*build''],
       html_favicon = ''_static/favicon.ico'',
       html_static_path = [''_static''] \<rparr>"

definition conf_py :: "mode \<Rightarrow> filesystem \<Rightarrow> filesystem \<times> (error + config)" where
  "conf_py umask fs =
     (case copy_julia_html_page umask fs of
        (fs', Inl e) \<Rightarrow> (fs', Inl e)
      | (fs', Inr r) \<Rightarrow> (fs', Inr conf_values))"

subsection \<open>Concrete states\<close>

text \<open>
  Modes, and the owner triples of two umasks: \<open>0o022\<close> takes nothing from the owner,
  \<open>0o222\<close> takes the owner's write permission.
\<close>

definition rw :: mode where "rw = Mode True True False"
definition ro :: mode where "ro = Mode True False False"
definition rwx :: mode where "rwx = Mode True True True"
definition umask_022 :: mode where "umask_022 = Mode False False False"
definition umask_222 :: mode where "umask_222 = Mode False True False"

text \<open>Inode numbers not in use hold this empty file.\<close>

definition no_files :: "inode \<Rightarrow> regular" where
  "no_files = (\<lambda>i. File [] rw True)"

text \<open>The scenario of the specification: the page next to an empty \<open>_static\<close>.\<close>

definition fs_page :: "mode \<Rightarrow> mode \<Rightarrow> filesystem" where
  "fs_page m dm =
     \<lparr> names = [([''K-matrix.html''], Reg 1), ([''_static''], Dir dm)],
       files = no_files(1 := File ''<html></html>'' m True) \<rparr>"

text \<open>That state after the page has been copied.\<close>

definition fs_page_copied :: "mode \<Rightarrow> mode \<Rightarrow> filesystem" where
  "fs_page_copied m dm =
     \<lparr> names = [([''_static'', ''K-matrix.html''], Reg 2),
                ([''K-matrix.html''], Reg 1), ([''_static''], Dir dm)],
       files = no_files(1 := File ''<html></html>'' m True, 2 := File ''<html></html>'' m True) \<rparr>"

text \<open>No page, an empty \<open>_static\<close>.\<close>

definition fs_no_page :: filesystem where
  "fs_no_page = \<lparr> names = [([''_static''], Dir rwx)], files = no_files \<rparr>"

text \<open>The page, and no \<open>_static\<close>.\<close>

definition fs_no_static :: filesystem where
  "fs_no_static =
     \<lparr> names = [([''K-matrix.html''], Reg 1)],
       files = no_files(1 := File ''<html></html>'' rw True) \<rparr>"

text \<open>
  The page, and an older copy of it in \<open>_static\<close> with the given mode and ownership.
\<close>

definition fs_old_copy :: "mode \<Rightarrow> bool \<Rightarrow> filesystem" where
  "fs_old_copy m own =
     \<lparr> names = [([''K-matrix.html''], Reg 1), ([''_static''], Dir rwx),
                ([''_static'', ''K-matrix.html''], Reg 2)],
       files = no_files(1 := File ''<html></html>'' rw True, 2 := File ''<html>'' m own) \<rparr>"

text \<open>The page, and a hard link to it where its copy would go.\<close>

definition fs_linked_copy :: filesystem where
  "fs_linked_copy =
     \<lparr> names = [([''K-matrix.html''], Reg 1), ([''_static''], Dir rwx),
                ([''_static'', ''K-matrix.html''], Reg 1)],
       files = no_files(1 := File ''<html></html>'' rw True) \<rparr>"

text \<open>
  The page, and an older copy of it in \<open>_static\<close> that has a second name outside
  \<open>_static\<close>.
\<close>

definition fs_shared_copy :: filesystem where
  "fs_shared_copy =
     \<lparr> names = [([''K-matrix.html''], Reg 1), ([''_static''], Dir rwx),
                ([''_static'', ''K-matrix.html''], Reg 2), ([''index.html''], Reg 2)],
       files = no_files(1 := File ''<html></html>'' rw True, 2 := File ''<html>'' rw True) \<rparr>"

text \<open>A page that may not be read, next to an empty \<open>_static\<close>.\<close>

definition fs_secret_page :: filesystem where
  "fs_secret_page =
     \<lparr> names = [([''K-matrix.html''], Reg 1), ([''_static''], Dir rwx)],
       files = no_files(1 := File ''<html></html>'' (Mode False True False) True) \<rparr>"

text \<open>The page, and a directory where its copy would go.\<close>

definition fs_dst_dir :: filesystem where
  "fs_dst_dir =
     \<lparr> names = [([''K-matrix.html''], Reg 1), ([''_static''], Dir rwx),
                ([''_static'', ''K-matrix.html''], Dir rwx)],
       files = no_files(1 := File ''<html></html>'' rw True) \<rparr>"

text \<open>A directory under the page's name.\<close>

definition fs_page_dir :: filesystem where
  "fs_page_dir =
     \<lparr> names = [([''K-matrix.html''], Dir rwx), ([''_static''], Dir rwx)],
       files = no_files \<rparr>"

section \<open>Properties\<close>

subsection \<open>The paths of the function\<close>

lemma Path_html_page: "Path ''K-matrix.html'' = [''K-matrix.html'']"
  by (simp add: Path_def)

lemma Path_static: "Path ''_static'' = [''_static'']"
  by (simp add: Path_def)

lemma str_destination:
  "str_path (joinpath [''_static''] [''K-matrix.html'']) = ''_static/K-matrix.html''"
  by (simp add: joinpath_def)

subsection \<open>Names and inode numbers\<close>

lemmas state_defs = fs_page_def fs_page_copied_def fs_no_page_def fs_no_static_def
  fs_old_copy_def fs_linked_copy_def fs_shared_copy_def fs_secret_page_def fs_dst_dir_def
  fs_page_dir_def no_files_def rw_def ro_def rwx_def umask_022_def umask_222_def

lemma fresh_inode_above:
  "map_of es p = Some (Reg i) \<Longrightarrow> i < fresh_inode es"
  by (induction es rule: fresh_inode.induct) (auto split: if_splits)

lemma fresh_inode_unused:
  "entry_at fs p = Some (Reg i) \<Longrightarrow> fresh_inode (names fs) \<noteq> i"
  by (auto simp: entry_at_def dest: fresh_inode_above)

lemma entry_at_new_name [simp]:
  "entry_at (fs\<lparr>names := (d, e) # names fs\<rparr>) p = (if p = d then Some e else entry_at fs p)"
  by (simp add: entry_at_def)

lemma entry_at_files [simp]:
  "entry_at (fs\<lparr>files := g\<rparr>) p = entry_at fs p"
  by (simp add: entry_at_def)

lemma entry_at_new_file [simp]:
  "entry_at (fs\<lparr>names := (d, e) # names fs, files := g\<rparr>) p =
     (if p = d then Some e else entry_at fs p)"
  by (simp add: entry_at_def)

subsection \<open>Name resolution\<close>

text \<open>A path resolves to its entry once its directory resolves to a searchable
  directory.\<close>

lemma walk_snoc:
  "walk fs dir c (cs @ [x]) =
     (case walk fs dir c cs of
        Inl e \<Rightarrow> Inl e
      | Inr (IsFile i f) \<Rightarrow> Inl NotADirectoryError
      | Inr (IsDir m) \<Rightarrow>
          if executable m then stat_entry fs (dir @ c # cs @ [x]) else Inl PermissionError)"
  by (induction cs arbitrary: dir c)
     (auto simp: stat_entry_def split: option.splits entry.splits
        cong: sum.case_cong stat_result.case_cong if_cong)

lemma stat_leaf:
  assumes "p \<noteq> []" and "os_stat fs (butlast p) = Inr (IsDir dm)" and "executable dm"
  shows "os_stat fs p = stat_entry fs p"
proof (cases p rule: rev_cases)
  case Nil
  with assms(1) show ?thesis by simp
next
  case (snoc q x)
  show ?thesis
  proof (cases q)
    case Nil
    with snoc show ?thesis by simp
  next
    case (Cons c cs)
    with snoc assms(2,3) show ?thesis
      by (simp add: walk_snoc)
  qed
qed

text \<open>Resolution to a directory looks at names only, and only at names that exist.\<close>

lemma walk_directory_files:
  "walk fs dir c cs = Inr (IsDir dm) \<Longrightarrow> walk (fs\<lparr>files := g\<rparr>) dir c cs = Inr (IsDir dm)"
  by (induction fs dir c cs rule: walk.induct)
     (auto simp: stat_entry_def split: option.splits entry.splits if_splits)

lemma stat_directory_files:
  "os_stat fs p = Inr (IsDir dm) \<Longrightarrow> os_stat (fs\<lparr>files := g\<rparr>) p = Inr (IsDir dm)"
  by (cases p) (simp_all add: walk_directory_files)

lemma walk_directory_new_name:
  "walk fs dir c cs = Inr (IsDir dm) \<Longrightarrow> entry_at fs d = None \<Longrightarrow>
   walk (fs\<lparr>names := (d, e) # names fs, files := g\<rparr>) dir c cs = Inr (IsDir dm)"
  by (induction fs dir c cs rule: walk.induct)
     (auto simp: stat_entry_def split: option.splits entry.splits if_splits)

lemma stat_directory_new_name:
  "os_stat fs p = Inr (IsDir dm) \<Longrightarrow> entry_at fs d = None \<Longrightarrow>
   os_stat (fs\<lparr>names := (d, e) # names fs, files := g\<rparr>) p = Inr (IsDir dm)"
  by (cases p) (simp_all add: walk_directory_new_name)

subsection \<open>The steps of the copy\<close>

lemma stat_page: "os_stat fs [''K-matrix.html''] = stat_entry fs [''K-matrix.html'']"
  by simp

lemma exists_page:
  "path_exists fs [''K-matrix.html''] = (entry_at fs [''K-matrix.html''] \<noteq> None)"
  by (simp add: path_exists_def stat_entry_def split: option.splits entry.splits)

lemma open_rb_page:
  "open_rb fs [''K-matrix.html''] =
     (case entry_at fs [''K-matrix.html''] of
        None \<Rightarrow> Inl FileNotFoundError
      | Some (Dir m) \<Rightarrow> Inl IsADirectoryError
      | Some (Reg i) \<Rightarrow>
          if readable (file_mode (files fs i)) then Inr (contents (files fs i))
          else Inl PermissionError)"
  by (simp add: open_rb_def stat_entry_def split: option.splits entry.splits)

lemma destination_neq:
  "destination fs \<noteq> [''K-matrix.html'']" "[''K-matrix.html''] \<noteq> destination fs"
  by (simp_all add: destination_def)


lemma shutil_copy_destination:
  "shutil_copy um fs [''K-matrix.html''] [''_static'', ''K-matrix.html''] =
     (case copyfile um fs [''K-matrix.html''] (destination fs) of
        (fs1, Inl e) \<Rightarrow> (fs1, Inl e)
      | (fs1, Inr r) \<Rightarrow>
          (case copymode fs1 [''K-matrix.html''] (destination fs) of
             (fs2, Inl e) \<Rightarrow> (fs2, Inl e)
           | (fs2, Inr u) \<Rightarrow> (fs2, Inr (destination fs))))"
  by (cases "isdir fs [''_static'', ''K-matrix.html'']")
     (simp_all add: shutil_copy_def destination_def basename_join_def Let_def
        cong: prod.case_cong sum.case_cong)

text \<open>The function in one equation: the existence check, then the steps of \<open>shutil.copy\<close>
  on the destination.\<close>

lemma copy_steps:
  "copy_julia_html_page um fs =
     (if entry_at fs [''K-matrix.html''] = None then (fs, Inr [])
      else if samefile fs [''K-matrix.html''] (destination fs) then (fs, Inl SameFileError)
      else case open_rb fs [''K-matrix.html''] of
        Inl e \<Rightarrow> (fs, Inl e)
      | Inr b \<Rightarrow>
          (case open_wb um fs (destination fs) of
             Inl e \<Rightarrow> (fs, Inl e)
           | Inr fs1 \<Rightarrow>
               (case copymode (write_bytes fs1 (destination fs) b) [''K-matrix.html'']
                       (destination fs) of
                  (fs2, Inl e) \<Rightarrow> (fs2, Inl e)
                | (fs2, Inr u) \<Rightarrow> (fs2, Inr [''_static/K-matrix.html'']))))"
  by (simp add: copy_julia_html_page_def Path_html_page Path_static exists_page joinpath_def
      shutil_copy_destination copyfile_def Let_def split: sum.splits prod.splits)

text \<open>What opening the destination for writing needs, and what it does.\<close>

lemma open_wb_cases:
  assumes "open_wb um fs p = Inr fs1"
  obtains dm j where "p \<noteq> []" and "os_stat fs (butlast p) = Inr (IsDir dm)"
      and "executable dm" and "entry_at fs p = Some (Reg j)"
      and "writable (file_mode (files fs j))"
      and "fs1 = fs\<lparr>files := (files fs)
        (j := File [] (file_mode (files fs j)) (owned (files fs j)))\<rparr>"
    | dm where "p \<noteq> []" and "os_stat fs (butlast p) = Inr (IsDir dm)"
      and "executable dm" and "writable dm" and "entry_at fs p = None"
      and "fs1 = fs\<lparr>names := (p, Reg (fresh_inode (names fs))) # names fs,
        files := (files fs)(fresh_inode (names fs) := File [] (create_mode um) True)\<rparr>"
  using assms
  by (auto simp: open_wb_def
      split: sum.splits stat_result.splits if_splits option.splits entry.splits)


lemma stat_opened:
  assumes "open_wb um fs p = Inr fs1"
  shows "os_stat fs p = stat_entry fs p"
  using assms by (elim open_wb_cases) (auto intro: stat_leaf)

lemma samefile_destination:
  assumes "open_wb um fs (destination fs) = Inr fs1"
    and "entry_at fs [''K-matrix.html''] = Some (Reg i)"
  shows "samefile fs [''K-matrix.html''] (destination fs) =
     (entry_at fs (destination fs) = Some (Reg i))"
  using assms(2)
  by (auto simp: samefile_def stat_opened [OF assms(1)] stat_entry_def
      split: option.splits entry.splits)

lemma copy_overwrites:
  assumes page: "entry_at fs [''K-matrix.html''] = Some (Reg i)"
    and rd: "readable (file_mode (files fs i))"
    and dst: "entry_at fs (destination fs) = Some (Reg j)" and "j \<noteq> i"
    and wb: "open_wb um fs (destination fs) = Inr fs1"
  shows "copy_julia_html_page um fs =
     (if owned (files fs j)
      then (fs\<lparr>files := (files fs)
              (j := File (contents (files fs i)) (file_mode (files fs i)) True)\<rparr>,
            Inr [''_static/K-matrix.html''])
      else (fs\<lparr>files := (files fs)
              (j := File (contents (files fs i)) (file_mode (files fs j)) False)\<rparr>,
            Inl PermissionError))"
proof -
  let ?d = "destination fs"
  let ?b = "contents (files fs i)"
  from wb dst obtain dm where d: "?d \<noteq> []"
    and parent: "os_stat fs (butlast ?d) = Inr (IsDir dm)" "executable dm"
    and fs1: "fs1 = fs\<lparr>files := (files fs)
      (j := File [] (file_mode (files fs j)) (owned (files fs j)))\<rparr>"
    by (elim open_wb_cases) auto
  have nosame: "\<not> samefile fs [''K-matrix.html''] ?d"
    using dst \<open>j \<noteq> i\<close> by (simp add: samefile_destination [OF wb page])
  have rb: "open_rb fs [''K-matrix.html''] = Inr ?b"
    using page rd by (simp add: open_rb_page)
  let ?fs2 = "fs\<lparr>files := (files fs)
      (j := File ?b (file_mode (files fs j)) (owned (files fs j)))\<rparr>"
  have wr: "write_bytes fs1 ?d ?b = ?fs2"
    using dst by (simp add: write_bytes_def fs1)
  have st: "os_stat ?fs2 [''K-matrix.html''] = Inr (IsFile i (files fs i))"
    using page \<open>j \<noteq> i\<close> by (simp add: stat_entry_def)
  have "os_stat ?fs2 ?d = stat_entry ?fs2 ?d"
    using d parent by (intro stat_leaf [where dm = dm]) (auto intro: stat_directory_files)
  then have std: "os_stat ?fs2 ?d =
      Inr (IsFile j (File ?b (file_mode (files fs j)) (owned (files fs j))))"
    using dst by (simp add: stat_entry_def)
  have cm: "copymode ?fs2 [''K-matrix.html''] ?d =
     (if owned (files fs j)
      then (fs\<lparr>files := (files fs) (j := File ?b (file_mode (files fs i)) True)\<rparr>, Inr ())
      else (fs\<lparr>files := (files fs) (j := File ?b (file_mode (files fs j)) False)\<rparr>,
            Inl PermissionError))"
    unfolding copymode_def chmod_def st std by auto
  show ?thesis
    using page nosame by (simp add: copy_steps rb wb wr cm)
qed

lemma copy_creates:
  assumes page: "entry_at fs [''K-matrix.html''] = Some (Reg i)"
    and rd: "readable (file_mode (files fs i))"
    and dst: "entry_at fs (destination fs) = None"
    and wb: "open_wb um fs (destination fs) = Inr fs1"
  shows "copy_julia_html_page um fs =
     (fs\<lparr>names := (destination fs, Reg (fresh_inode (names fs))) # names fs,
         files := (files fs)
           (fresh_inode (names fs) := File (contents (files fs i)) (file_mode (files fs i)) True)\<rparr>,
      Inr [''_static/K-matrix.html''])"
proof -
  let ?d = "destination fs"
  let ?b = "contents (files fs i)"
  let ?n = "fresh_inode (names fs)"
  have ni: "?n \<noteq> i"
    using page by (rule fresh_inode_unused)
  from wb dst obtain dm where d: "?d \<noteq> []"
    and parent: "os_stat fs (butlast ?d) = Inr (IsDir dm)" "executable dm"
    and fs1: "fs1 = fs\<lparr>names := (?d, Reg ?n) # names fs,
      files := (files fs)(?n := File [] (create_mode um) True)\<rparr>"
    by (elim open_wb_cases) auto
  have nosame: "\<not> samefile fs [''K-matrix.html''] ?d"
    using dst by (simp add: samefile_destination [OF wb page])
  have rb: "open_rb fs [''K-matrix.html''] = Inr ?b"
    using page rd by (simp add: open_rb_page)
  let ?fs2 = "fs\<lparr>names := (?d, Reg ?n) # names fs,
      files := (files fs)(?n := File ?b (create_mode um) True)\<rparr>"
  have wr: "write_bytes fs1 ?d ?b = ?fs2"
    by (simp add: write_bytes_def fs1)
  have st: "os_stat ?fs2 [''K-matrix.html''] = Inr (IsFile i (files fs i))"
    using page ni by (simp add: destination_neq stat_entry_def)
  have "os_stat ?fs2 ?d = stat_entry ?fs2 ?d"
    using d parent dst
    by (intro stat_leaf [where dm = dm]) (auto intro: stat_directory_new_name)
  then have std: "os_stat ?fs2 ?d = Inr (IsFile ?n (File ?b (create_mode um) True))"
    by (simp add: stat_entry_def)
  have cm: "copymode ?fs2 [''K-matrix.html''] ?d =
     (fs\<lparr>names := (?d, Reg ?n) # names fs,
         files := (files fs)(?n := File ?b (file_mode (files fs i)) True)\<rparr>, Inr ())"
    unfolding copymode_def chmod_def st std by simp
  show ?thesis
    using page nosame by (simp add: copy_steps rb wb wr cm)
qed

lemma copy_absent:
  "entry_at fs [''K-matrix.html''] = None \<Longrightarrow> copy_julia_html_page um fs = (fs, Inr [])"
  by (simp add: copy_steps)






lemma open_wb_umask:
  "(case open_wb um1 fs p of Inl e \<Rightarrow> Inl e | Inr fs1 \<Rightarrow> Inr ()) =
   (case open_wb um2 fs p of Inl e \<Rightarrow> Inl e | Inr fs1 \<Rightarrow> Inr ())"
  by (simp add: open_wb_def split: sum.splits stat_result.splits option.splits entry.splits)

text \<open>Every run of the function is one of four: nothing to copy; a failure before
  anything is written; the page written over the file at the destination, with or
  without the change of mode; the page written to a new file at the destination.\<close>

lemma copy_cases:
  obtains (absent) "entry_at fs [''K-matrix.html''] = None"
      and "copy_julia_html_page um fs = (fs, Inr [])"
    | (failed) e where "entry_at fs [''K-matrix.html''] \<noteq> None"
      and "copy_julia_html_page um fs = (fs, Inl e)"
    | (overwritten) i j fs1 where "entry_at fs [''K-matrix.html''] = Some (Reg i)"
      and "readable (file_mode (files fs i))"
      and "entry_at fs (destination fs) = Some (Reg j)" and "j \<noteq> i"
      and "open_wb um fs (destination fs) = Inr fs1"
    | (created) i fs1 where "entry_at fs [''K-matrix.html''] = Some (Reg i)"
      and "readable (file_mode (files fs i))"
      and "entry_at fs (destination fs) = None"
      and "open_wb um fs (destination fs) = Inr fs1"
proof (cases "entry_at fs [''K-matrix.html'']")
  case None
  then show ?thesis
    by (intro absent) (simp_all add: copy_steps)
next
  case (Some en)
  show ?thesis
  proof (cases "samefile fs [''K-matrix.html''] (destination fs)")
    case True
    with Some show ?thesis
      by (intro failed [of SameFileError]) (simp_all add: copy_steps)
  next
    case nosame: False
    show ?thesis
    proof (cases "open_rb fs [''K-matrix.html'']")
      case (Inl e)
      with Some nosame show ?thesis
        by (intro failed [of e]) (simp_all add: copy_steps)
    next
      case (Inr b)
      with Some obtain i where page: "entry_at fs [''K-matrix.html''] = Some (Reg i)"
        and rd: "readable (file_mode (files fs i))"
        by (auto simp: open_rb_page split: entry.splits if_splits)
      show ?thesis
      proof (cases "open_wb um fs (destination fs)")
        case (Inl e)
        with Some nosame Inr show ?thesis
          by (intro failed [of e]) (simp_all add: copy_steps)
      next
        case wb: (Inr fs1)
        show ?thesis
        proof (cases "entry_at fs (destination fs)")
          case None
          with page rd show ?thesis
            using wb by (rule created)
        next
          case (Some en')
          with wb obtain j where dst: "entry_at fs (destination fs) = Some (Reg j)"
            by (elim open_wb_cases) auto
          with nosame have "j \<noteq> i"
            by (auto simp: samefile_destination [OF wb page])
          with page rd dst show ?thesis
            using wb by (rule overwritten)
        qed
      qed
    qed
  qed
qed



lemma copy_result_lists:
  assumes "copy_julia_html_page um fs = (fs', Inr xs)"
  shows "xs = [] \<or> xs = [''_static/K-matrix.html'']"
  using assms
  by (cases rule: copy_cases [of fs um])
     (auto simp: copy_overwrites copy_creates split: if_splits)

text \<open>The umask decides only the mode of a file as it is created, and that mode does
  not last.\<close>

lemma copy_umask_free:
  assumes wb1: "open_wb um1 fs (destination fs) = Inr fs1"
    and wb2: "open_wb um2 fs (destination fs) = Inr fs2"
  shows "copy_julia_html_page um1 fs = copy_julia_html_page um2 fs"
proof (cases "entry_at fs [''K-matrix.html''] = None \<or>
    samefile fs [''K-matrix.html''] (destination fs)")
  case True
  then show ?thesis
    by (auto simp: copy_steps)
next
  case False
  show ?thesis
  proof (cases "open_rb fs [''K-matrix.html'']")
    case (Inl e)
    with False show ?thesis
      by (simp add: copy_steps)
  next
    case (Inr b)
    with False obtain i where page: "entry_at fs [''K-matrix.html''] = Some (Reg i)"
      and rd: "readable (file_mode (files fs i))"
      by (auto simp: open_rb_page split: option.splits entry.splits if_splits)
    show ?thesis
    proof (cases "entry_at fs (destination fs)")
      case None
      with page rd show ?thesis
        by (simp add: copy_creates [OF _ _ _ wb1] copy_creates [OF _ _ _ wb2])
    next
      case (Some en)
      with wb1 obtain j where dst: "entry_at fs (destination fs) = Some (Reg j)"
        by (elim open_wb_cases) auto
      with False have "j \<noteq> i"
        by (auto simp: samefile_destination [OF wb1 page])
      with page rd dst show ?thesis
        by (simp add: copy_overwrites [OF _ _ _ _ wb1] copy_overwrites [OF _ _ _ _ wb2])
    qed
  qed
qed

lemmas run_defs = copy_steps samefile_def open_rb_page open_wb_def write_bytes_def
  copymode_def chmod_def destination_def isdir_def stat_entry_def entry_at_def

subsection \<open>Copying the page\<close>

text \<open>
  Claim C1, as amended. In a file system without symbolic links whose device does not
  fail, take any state in which \<open>K-matrix.html\<close> is a regular file that the process may
  read, \<open>_static\<close> is a directory in which the process may create files (write and search
  permission), and \<open>_static/K-matrix.html\<close> is either absent or names a regular file,
  other than the page itself, that the process owns and may write. Then the function
  returns the one-element list \<open>["_static/K-matrix.html"]\<close>, and afterwards that path
  names a file with the bytes and the mode of the page. No other name has changed, and
  no other file has changed; the page is one of those other files.
\<close>

theorem copy_page_into_static:
  assumes page: "entry_at fs [''K-matrix.html''] = Some (Reg i)"
    and rd: "readable (file_mode (files fs i))"
    and static: "entry_at fs [''_static''] = Some (Dir dm)"
    and "writable dm" and "executable dm"
    and dst: "entry_at fs [''_static'', ''K-matrix.html''] = None \<or>
      (\<exists>j. entry_at fs [''_static'', ''K-matrix.html''] = Some (Reg j) \<and> j \<noteq> i \<and>
         writable (file_mode (files fs j)) \<and> owned (files fs j))"
  shows "\<exists>fs' j. copy_julia_html_page um fs = (fs', Inr [''_static/K-matrix.html'']) \<and>
    entry_at fs' [''_static'', ''K-matrix.html''] = Some (Reg j) \<and>
    contents (files fs' j) = contents (files fs i) \<and>
    file_mode (files fs' j) = file_mode (files fs i) \<and>
    j \<noteq> i \<and>
    (\<forall>p. p \<noteq> [''_static'', ''K-matrix.html''] \<longrightarrow> entry_at fs' p = entry_at fs p) \<and>
    (\<forall>k. k \<noteq> j \<longrightarrow> files fs' k = files fs k)"
proof -
  let ?d = "[''_static'', ''K-matrix.html'']"
  have "\<not> isdir fs ?d"
    using static dst by (auto simp: isdir_def stat_entry_def)
  then have d: "destination fs = ?d"
    by (simp add: destination_def)
  have parent: "os_stat fs (butlast ?d) = Inr (IsDir dm)"
    using static by (simp add: stat_entry_def)
  from dst show ?thesis
  proof
    assume none: "entry_at fs ?d = None"
    let ?n = "fresh_inode (names fs)"
    have "open_wb um fs ?d = Inr (fs\<lparr>names := (?d, Reg ?n) # names fs,
        files := (files fs)(?n := File [] (create_mode um) True)\<rparr>)"
      using parent none \<open>writable dm\<close> \<open>executable dm\<close> by (simp add: open_wb_def)
    with page rd none
    have "copy_julia_html_page um fs =
       (fs\<lparr>names := (?d, Reg ?n) # names fs,
           files := (files fs)
             (?n := File (contents (files fs i)) (file_mode (files fs i)) True)\<rparr>,
        Inr [''_static/K-matrix.html''])"
      using copy_creates [of fs i um] by (simp add: d)
    moreover have "?n \<noteq> i"
      using page by (rule fresh_inode_unused)
    ultimately show ?thesis
      by simp
  next
    assume "\<exists>j. entry_at fs ?d = Some (Reg j) \<and> j \<noteq> i \<and>
      writable (file_mode (files fs j)) \<and> owned (files fs j)"
    then obtain j where j: "entry_at fs ?d = Some (Reg j)" "j \<noteq> i"
      "writable (file_mode (files fs j))" "owned (files fs j)"
      by blast
    have "open_wb um fs ?d = Inr (fs\<lparr>files := (files fs)
        (j := File [] (file_mode (files fs j)) (owned (files fs j)))\<rparr>)"
      using parent j \<open>executable dm\<close> by (simp add: open_wb_def)
    with page rd j
    have "copy_julia_html_page um fs =
       (fs\<lparr>files := (files fs)
           (j := File (contents (files fs i)) (file_mode (files fs i)) True)\<rparr>,
        Inr [''_static/K-matrix.html''])"
      using copy_overwrites [of fs i j um] by (simp add: d)
    with j show ?thesis
      by simp
  qed
qed

text \<open>The page replaces an older copy that the process owns and may write.\<close>

theorem copy_page_into_static_witness:
  "\<exists>fs' j. copy_julia_html_page umask_022 (fs_old_copy rw True) =
       (fs', Inr [''_static/K-matrix.html'']) \<and>
     entry_at fs' [''_static'', ''K-matrix.html''] = Some (Reg j) \<and>
     contents (files fs' j) = ''<html></html>'' \<and> file_mode (files fs' j) = rw"
proof -
  have page: "entry_at (fs_old_copy rw True) [''K-matrix.html''] = Some (Reg 1)"
    and static: "entry_at (fs_old_copy rw True) [''_static''] = Some (Dir rwx)"
    by (simp_all add: fs_old_copy_def entry_at_def)
  have rd: "readable (file_mode (files (fs_old_copy rw True) 1))"
    by (simp add: fs_old_copy_def rw_def)
  have dst: "entry_at (fs_old_copy rw True) [''_static'', ''K-matrix.html''] = None \<or>
      (\<exists>j. entry_at (fs_old_copy rw True) [''_static'', ''K-matrix.html''] = Some (Reg j) \<and>
         j \<noteq> 1 \<and> writable (file_mode (files (fs_old_copy rw True) j)) \<and>
         owned (files (fs_old_copy rw True) j))"
    by (simp add: fs_old_copy_def entry_at_def rw_def)
  have page_file: "files (fs_old_copy rw True) 1 = File ''<html></html>'' rw True"
    by (simp add: fs_old_copy_def)
  from copy_page_into_static [OF page rd static _ _ dst, of umask_022] page_file
  show ?thesis
    by (simp add: rwx_def) blast
qed

text \<open>
  As stated, without the conditions on the page's mode and on what the destination path
  names, the claim fails: the page is a regular file and \<open>_static\<close> is a writable
  directory, but an older read-only copy makes the function raise \<open>PermissionError\<close>.
\<close>

theorem copy_onto_read_only_copy_fails:
  "entry_at (fs_old_copy ro True) [''K-matrix.html''] = Some (Reg 1) \<and>
   entry_at (fs_old_copy ro True) [''_static''] = Some (Dir (Mode True True True)) \<and>
   copy_julia_html_page umask_022 (fs_old_copy ro True) =
     (fs_old_copy ro True, Inl PermissionError)"
  by (simp add: run_defs state_defs)

text \<open>
  Each of the other conditions is needed as well. A page that may not be read fails
  before anything is written; a destination that is a hard link to the page is refused;
  a destination that the process may write but does not own receives the page's bytes
  and then fails at the change of mode.
\<close>

lemma copy_secret_page_fails:
  "copy_julia_html_page umask_022 fs_secret_page = (fs_secret_page, Inl PermissionError)"
  by (simp add: run_defs state_defs)

lemma copy_onto_hard_link_fails:
  "copy_julia_html_page umask_022 fs_linked_copy = (fs_linked_copy, Inl SameFileError)"
  by (simp add: run_defs state_defs)

lemma copy_onto_foreign_copy_fails:
  "copy_julia_html_page umask_022 (fs_old_copy rw False) =
     ((fs_old_copy rw False)\<lparr>files := (files (fs_old_copy rw False))
         (2 := File ''<html></html>'' rw False)\<rparr>,
      Inl PermissionError)"
  by (simp add: run_defs state_defs)

subsection \<open>No page\<close>

text \<open>
  Claim C2. In every state in which \<open>K-matrix.html\<close> is absent from the working directory,
  the function returns the empty list and the file system is unchanged.
\<close>

theorem absent_page_no_write:
  assumes "entry_at fs [''K-matrix.html''] = None"
  shows "copy_julia_html_page um fs = (fs, Inr [])"
  using assms by (simp add: copy_steps)

theorem absent_page_no_write_witness:
  "copy_julia_html_page umask_022 fs_no_page = (fs_no_page, Inr []) \<and>
   entry_at fs_no_page [''_static'', ''K-matrix.html''] = None"
proof -
  have "entry_at fs_no_page [''K-matrix.html''] = None"
    by (simp add: fs_no_page_def entry_at_def)
  then show ?thesis
    using absent_page_no_write [of fs_no_page umask_022]
    by (simp add: fs_no_page_def entry_at_def)
qed

subsection \<open>The caller\<close>

text \<open>
  Claim C3, as amended. The module calls the function and drops the list it returns.
  Whenever the module loads, \<open>html_static_path\<close> is the fixed list \<open>["_static"]\<close>: it does
  not contain a path returned by the function, and it names the directory \<open>_static\<close>
  under which a returned path lies.
\<close>

theorem static_path_is_fixed:
  assumes "conf_py um fs = (fs', Inr cfg)"
  shows "html_static_path cfg = [''_static''] \<and>
    (\<exists>xs. copy_julia_html_page um fs = (fs', Inr xs) \<and>
       (\<forall>p \<in> set xs. p \<notin> set (html_static_path cfg) \<and>
          (\<exists>d \<in> set (html_static_path cfg). p = d @ ''/K-matrix.html'')))"
proof -
  from assms obtain xs where run: "copy_julia_html_page um fs = (fs', Inr xs)"
    and cfg: "cfg = conf_values"
    by (auto simp: conf_py_def split: prod.splits sum.splits)
  from run have "xs = [] \<or> xs = [''_static/K-matrix.html'']"
    by (rule copy_result_lists)
  with run cfg show ?thesis
    by (auto simp: conf_values_def)
qed

theorem static_path_is_fixed_witness:
  "html_static_path conf_values = [''_static''] \<and>
   snd (copy_julia_html_page umask_022 (fs_page rw rwx)) = Inr [''_static/K-matrix.html'']"
proof -
  have run: "copy_julia_html_page umask_022 (fs_page rw rwx) =
      (fs_page_copied rw rwx, Inr [''_static/K-matrix.html''])"
    by (simp add: run_defs state_defs numeral_2_eq_2)
  then have "conf_py umask_022 (fs_page rw rwx) = (fs_page_copied rw rwx, Inr conf_values)"
    by (simp add: conf_py_def)
  from static_path_is_fixed [OF this] run show ?thesis
    by simp
qed

text \<open>
  As stated the claim fails: the page is copied, the function returns
  \<open>["_static/K-matrix.html"]\<close>, and the static-files list of the loaded module does not
  contain that path.
\<close>

theorem returned_path_not_in_static_path:
  "snd (copy_julia_html_page umask_022 (fs_page rw rwx)) = Inr [''_static/K-matrix.html''] \<and>
   snd (conf_py umask_022 (fs_page rw rwx)) = Inr conf_values \<and>
   ''_static/K-matrix.html'' \<notin> set (html_static_path conf_values)"
  by (simp add: conf_py_def conf_values_def run_defs state_defs)

subsection \<open>Copying twice\<close>




subsection \<open>Failures\<close>

text \<open>
  Claim C5. In every state in which \<open>K-matrix.html\<close> is present and \<open>_static\<close> does not
  exist, the function fails: it returns neither a list of one path nor the empty list.
  Nothing is written, and for a readable regular file the error is
  \<open>FileNotFoundError\<close>.
\<close>

theorem missing_static_fails:
  assumes "entry_at fs [''K-matrix.html''] \<noteq> None" and "entry_at fs [''_static''] = None"
  shows "\<exists>e. copy_julia_html_page um fs = (fs, Inl e) \<and>
    (open_rb fs [''K-matrix.html''] = Inl e \<or>
     (\<exists>b. open_rb fs [''K-matrix.html''] = Inr b) \<and> e = FileNotFoundError)"
proof -
  from assms(2) have d: "destination fs = [''_static'', ''K-matrix.html'']"
    by (simp add: destination_def isdir_def stat_entry_def)
  from assms(2) have "\<not> samefile fs [''K-matrix.html''] [''_static'', ''K-matrix.html'']"
    by (simp add: samefile_def stat_entry_def split: sum.splits stat_result.splits)
  moreover
  from assms(2) have "open_wb um fs [''_static'', ''K-matrix.html''] = Inl FileNotFoundError"
    by (simp add: open_wb_def stat_entry_def)
  ultimately show ?thesis
    using assms(1) d
    by (cases "open_rb fs [''K-matrix.html'']") (auto simp: copy_steps)
qed

theorem missing_static_fails_witness:
  "copy_julia_html_page umask_022 fs_no_static = (fs_no_static, Inl FileNotFoundError)"
proof -
  have "entry_at fs_no_static [''K-matrix.html''] \<noteq> None"
    and "entry_at fs_no_static [''_static''] = None"
    by (simp_all add: fs_no_static_def entry_at_def)
  from missing_static_fails [OF this, of umask_022]
  obtain e where run: "copy_julia_html_page umask_022 fs_no_static = (fs_no_static, Inl e)"
    and e: "open_rb fs_no_static [''K-matrix.html''] = Inl e \<or>
      (\<exists>b. open_rb fs_no_static [''K-matrix.html''] = Inr b) \<and> e = FileNotFoundError"
    by blast
  have "open_rb fs_no_static [''K-matrix.html''] = Inr ''<html></html>''"
    by (simp add: open_rb_page fs_no_static_def entry_at_def rw_def)
  with e have "e = FileNotFoundError"
    by simp
  with run show ?thesis
    by simp
qed

text \<open>
  Claim C6. Whenever the copy step fails, the function fails with the very error of the
  copy step and in the file system as the copy step left it: the error is neither
  caught nor replaced, and the copy is not tried again.
\<close>

theorem copy_error_propagates:
  assumes "path_exists fs (Path ''K-matrix.html'')"
    and "shutil_copy um fs (Path ''K-matrix.html'')
      (joinpath (Path ''_static'') (Path ''K-matrix.html'')) = (fs', Inl e)"
  shows "copy_julia_html_page um fs = (fs', Inl e)"
  using assms by (simp add: copy_julia_html_page_def Let_def)

theorem copy_error_propagates_witness:
  "shutil_copy umask_022 fs_secret_page (Path ''K-matrix.html'')
      (joinpath (Path ''_static'') (Path ''K-matrix.html'')) =
     (fs_secret_page, Inl PermissionError) \<and>
   copy_julia_html_page umask_022 fs_secret_page = (fs_secret_page, Inl PermissionError)"
proof -
  have ex: "path_exists fs_secret_page (Path ''K-matrix.html'')"
    by (simp add: Path_html_page exists_page fs_secret_page_def entry_at_def)
  have step: "shutil_copy umask_022 fs_secret_page (Path ''K-matrix.html'')
      (joinpath (Path ''_static'') (Path ''K-matrix.html'')) =
     (fs_secret_page, Inl PermissionError)"
    by (simp add: Path_html_page Path_static joinpath_def shutil_copy_destination
        copyfile_def samefile_def destination_def isdir_def stat_entry_def open_rb_page
        fs_secret_page_def entry_at_def rwx_def)
  from copy_error_propagates [OF ex step] step show ?thesis
    by simp
qed

text \<open>An error after the bytes are written propagates in the same way, with the
  written bytes in place.\<close>

lemma copy_error_after_write_propagates:
  "shutil_copy umask_022 (fs_old_copy rw False) [''K-matrix.html'']
      [''_static'', ''K-matrix.html''] =
     ((fs_old_copy rw False)\<lparr>files := (files (fs_old_copy rw False))
         (2 := File ''<html></html>'' rw False)\<rparr>,
      Inl PermissionError)"
  by (simp add: shutil_copy_destination copyfile_def samefile_def destination_def isdir_def
      stat_entry_def open_rb_page open_wb_def write_bytes_def copymode_def chmod_def
      entry_at_def state_defs)

subsection \<open>The scenario of the specification\<close>

text \<open>
  Claim C7, as amended. The working directory holds \<open>K-matrix.html\<close> with the content
  \<open><html></html>\<close>, which is 13 bytes, readable, and \<open>_static\<close> is an empty directory in
  which files may be created. After one invocation \<open>_static/K-matrix.html\<close> exists with
  the same 13 bytes, and the returned list is \<open>["_static/K-matrix.html"]\<close>.
\<close>

theorem scenario_page_copied:
  assumes "readable m" and "writable dm" and "executable dm"
  shows "copy_julia_html_page um (fs_page m dm) =
      (fs_page_copied m dm, Inr [''_static/K-matrix.html'']) \<and>
    entry_at (fs_page m dm) [''K-matrix.html''] = Some (Reg 1) \<and>
    files (fs_page m dm) 1 = File ''<html></html>'' m True \<and>
    entry_at (fs_page m dm) [''_static'', ''K-matrix.html''] = None \<and>
    entry_at (fs_page_copied m dm) [''_static'', ''K-matrix.html''] = Some (Reg 2) \<and>
    files (fs_page_copied m dm) 2 = File ''<html></html>'' m True \<and>
    (\<forall>p. p \<noteq> [''_static'', ''K-matrix.html''] \<longrightarrow>
       entry_at (fs_page_copied m dm) p = entry_at (fs_page m dm) p) \<and>
    files (fs_page_copied m dm) 1 = files (fs_page m dm) 1 \<and>
    length ''<html></html>'' = 13"
  using assms
  by (simp add: run_defs fs_page_def fs_page_copied_def numeral_2_eq_2)

theorem scenario_page_copied_witness:
  "copy_julia_html_page umask_022 (fs_page rw rwx) =
      (fs_page_copied rw rwx, Inr [''_static/K-matrix.html'']) \<and>
   files (fs_page_copied rw rwx) 2 = File ''<html></html>'' rw True"
proof -
  have "readable rw" and "writable rwx" and "executable rwx"
    by (simp_all add: rw_def rwx_def)
  from scenario_page_copied [OF this, of umask_022] show ?thesis
    by simp
qed

text \<open>
  As stated the claim fails on the size: the copy has the bytes of the page, and they
  are not 10.
\<close>

theorem scenario_copy_is_not_10_bytes:
  "copy_julia_html_page umask_022 (fs_page rw rwx) =
      (fs_page_copied rw rwx, Inr [''_static/K-matrix.html'']) \<and>
   entry_at (fs_page_copied rw rwx) [''_static'', ''K-matrix.html''] = Some (Reg 2) \<and>
   contents (files (fs_page_copied rw rwx) 2) = ''<html></html>'' \<and>
   length ''<html></html>'' \<noteq> 10"
  by (simp add: run_defs state_defs numeral_2_eq_2)

subsection \<open>What is written\<close>




text \<open>An older copy with a second name outside \<open>_static\<close> is one file: what the
  function writes to it is read under the other name as well.\<close>

lemma copy_shows_under_other_name:
  "entry_at fs_shared_copy [''index.html''] = Some (Reg 2) \<and>
   contents (files fs_shared_copy 2) = ''<html>'' \<and>
   contents (files (fst (copy_julia_html_page umask_022 fs_shared_copy)) 2) = ''<html></html>''"
  by (simp add: run_defs state_defs)

subsection \<open>A directory under the page's name\<close>



subsection \<open>Determinism\<close>

text \<open>
  Claim C10. The outcome of the function, the returned list or error and the resulting
  file system, is a function of the file-system state alone: it does not depend on the
  one other input that the calls consult, the umask of the process. (The mode given to
  a newly created copy is replaced by the mode of the page.)
\<close>

theorem outcome_depends_on_state_only:
  "copy_julia_html_page um1 fs = copy_julia_html_page um2 fs"
proof (cases "open_wb um1 fs (destination fs)")
  case (Inl e)
  with open_wb_umask [of um1 fs "destination fs" um2]
  have "open_wb um2 fs (destination fs) = Inl e"
    by (cases "open_wb um2 fs (destination fs)") auto
  with Inl show ?thesis
    by (simp add: copy_steps split: sum.splits)
next
  case (Inr fs1)
  with open_wb_umask [of um1 fs "destination fs" um2]
  obtain fs2 where "open_wb um2 fs (destination fs) = Inr fs2"
    by (cases "open_wb um2 fs (destination fs)") auto
  with Inr show ?thesis
    by (rule copy_umask_free)
qed

theorem outcome_depends_on_state_only_witness:
  "copy_julia_html_page umask_222 (fs_page rw rwx) =
     (fs_page_copied rw rwx, Inr [''_static/K-matrix.html'']) \<and>
   create_mode umask_222 \<noteq> create_mode umask_022"
proof -
  have "copy_julia_html_page umask_022 (fs_page rw rwx) =
     (fs_page_copied rw rwx, Inr [''_static/K-matrix.html''])"
    by (simp add: run_defs state_defs numeral_2_eq_2)
  with outcome_depends_on_state_only [of umask_222 "fs_page rw rwx" umask_022]
  show ?thesis by (simp add: create_mode_def umask_022_def umask_222_def)
qed

end
